theory Spec2Isabelle
  imports Complex_Main
begin

section \<open>JavaScript values\<close>

text \<open>
  Strings are lists of 8-bit characters, read as the code units 0..255 (Latin-1).
  A property that may be absent (\<open>undefined\<close>) or \<open>null\<close> is an \<open>option\<close>.
  A rejected promise or a thrown exception is a value of \<open>js_error\<close>: \<open>TypeError\<close>
  for a property read on \<open>undefined\<close> or a call of something that is no function,
  \<open>Error\<close> for \<open>new Error(msg)\<close> as the API client throws it; both carry the
  message.
\<close>

datatype js_error = TypeError string | Error string

fun error_message :: "js_error \<Rightarrow> string" where
  "error_message (TypeError m) = m"
| "error_message (Error m) = m"

text \<open>Truthiness of a string-valued property: absent and the empty string are falsy.\<close>

definition truthy :: "string option \<Rightarrow> bool" where
  "truthy v = (case v of None \<Rightarrow> False | Some s \<Rightarrow> s \<noteq> [])"

text \<open>The operator \<open>a || b\<close> on such properties.\<close>

definition js_or :: "string option \<Rightarrow> string option \<Rightarrow> string option" where
  "js_or a b = (if truthy a then a else b)"

text \<open>\<open>xs[i]\<close>: \<open>undefined\<close> out of range.\<close>

definition js_index :: "'a list \<Rightarrow> nat \<Rightarrow> 'a option" where
  "js_index xs i = (if i < length xs then Some (xs ! i) else None)"

section \<open>The API client (api-service.js)\<close>

text \<open>
  Every request the client can send. A handler of the components appends the request to
  the \<open>network\<close> log of its state when it reaches the call; what the backend answers is
  an argument of the handler (\<open>Inl e\<close>: the promise is rejected with \<open>e\<close>).
\<close>

datatype api_call =
    TriggerDemoFileIngest string
  | UploadDocument string
  | GetProcessingStatus string
  | ListDocuments
  | SetActiveDocument "string option"
  | UpdateIngestedStatus "string option" bool
  | QueryDocument string "string option" "string option"
  | GetChatHistory string
  | ClearAllChatHistory

text \<open>The methods class \<open>ApiService\<close> defines, in the order of the file.\<close>

definition ApiService_methods :: "string list" where
  "ApiService_methods =
     [''login'', ''logout'', ''triggerDemoFileIngest'', ''uploadDocument'',
      ''getProcessingStatus'', ''listDocuments'', ''setActiveDocument'',
      ''updateIngestedStatus'', ''queryDocument'', ''getChatHistory'',
      ''clearChatHistory'', ''getSystemStatus'', ''getUserProfile'', ''healthCheck'',
      ''clearAllChatHistory'']"

text \<open>
  \<open>apiService.m(...)\<close>: a method the class does not define is \<open>undefined\<close>, and calling
  it throws a \<open>TypeError\<close> before any request is sent; otherwise the result is the
  backend's answer.
\<close>

definition call_method :: "string \<Rightarrow> (js_error + 'a) \<Rightarrow> js_error + 'a" where
  "call_method m answer =
     (if m \<in> set ApiService_methods then answer
      else Inl (TypeError (''apiService.'' @ m @ '' is not a function'')))"

text \<open>
  What every component shares with the browser: \<open>localStorage\<close>, the calls of
  \<open>alert\<close> in order, and the requests sent, in order.
\<close>

record browser =
  localStorage :: "string \<rightharpoonup> string"
  alerts :: "string list"
  network :: "api_call list"

section \<open>Document registry (AdminDashboard.jsx)\<close>

text \<open>A document as the backend lists it, and as the dashboard keeps it.\<close>

record backend_doc =
  doc_id :: "string option"
  task_id :: "string option"
  filename :: "string option"
  processing_status :: "string option"

record document = backend_doc +
  ingested :: bool
  isActive :: bool

record progress_entry =
  progress :: rat
  status :: string
  message :: "string option"
  error_text :: "string option"

record demo_ingest_state =
  demo_status :: "string option"
  demo_messages :: "string list"

text \<open>A timer the component has registered and not cleared.\<close>

datatype timer =
    PollStatusesTimeout
  | MonitorInterval string string
  | RemoveProgressTimeout string

text \<open>
  The component's state and what the component has done to the outside:
  \<open>published\<close> are the calls of \<open>onActiveDocumentChange\<close> in order, \<open>timers\<close> the
  timers registered and not yet fired or cleared.
\<close>

record admin_state = browser +
  uploadedFiles :: "document list"
  uploadProgress :: "string \<rightharpoonup> progress_entry"
  isDemoMode :: bool
  demoIngestState :: demo_ingest_state
  demoIngested :: bool
  timers :: "timer list"
  published :: "document option list"

definition completed :: "'a backend_doc_scheme \<Rightarrow> bool" where
  "completed f = (processing_status f = Some ''completed'')"

text \<open>
  The callback of \<open>.map((f, idx, arr) => ...)\<close> in \<open>loadUploadedFiles\<close>. The comparison
  \<open>idx === arr.filter(...).length - 1\<close> is on numbers, so the right side is \<open>-1\<close> when
  no document is completed.
\<close>

definition derive_file :: "backend_doc list \<Rightarrow> nat \<Rightarrow> backend_doc \<Rightarrow> document" where
  "derive_file arr idx f =
     \<lparr> doc_id = doc_id f,
       task_id = js_or (js_or (doc_id f) (task_id f)) (filename f),
       filename = filename f,
       processing_status = processing_status f,
       ingested = completed f,
       isActive = (int idx = int (length (filter completed arr)) - 1 \<and> completed f) \<rparr>"

definition loadUploadedFiles ::
  "(js_error + backend_doc list option) \<Rightarrow> admin_state \<Rightarrow> admin_state" where
  "loadUploadedFiles response st =
     (let st0 = st\<lparr>network := network st @ [ListDocuments]\<rparr> in
      case response of
        Inl e \<Rightarrow> st0\<lparr>uploadedFiles := [], published := published st0 @ [None]\<rparr>
      | Inr documents \<Rightarrow>
          (let arr = (case documents of None \<Rightarrow> [] | Some ds \<Rightarrow> ds);
               files = map (\<lambda>(idx, f). derive_file arr idx f) (enumerate 0 arr);
               st1 = st0\<lparr>uploadedFiles := files\<rparr>
           in case find isActive files of
                None \<Rightarrow> st1
              | Some activeFile \<Rightarrow> st1\<lparr>published := published st1 @ [Some activeFile]\<rparr>))"

definition handleSetActive ::
  "nat \<Rightarrow> (js_error + unit) \<Rightarrow> admin_state \<Rightarrow> admin_state" where
  "handleSetActive activeIdx answer st =
     (case js_index (uploadedFiles st) activeIdx of
        None \<Rightarrow>
          st\<lparr>alerts := alerts st @ [''Document ID undefined, cannot set active document.'']\<rparr>
      | Some selectedDoc \<Rightarrow>
          if \<not> truthy (task_id selectedDoc) then
            st\<lparr>alerts := alerts st @ [''Document ID undefined, cannot set active document.'']\<rparr>
          else
            (let st0 = st\<lparr>network := network st @
                        [SetActiveDocument (js_or (task_id selectedDoc) (doc_id selectedDoc))]\<rparr>
             in case answer of
                  Inl e \<Rightarrow> st0\<lparr>alerts := alerts st0 @ [''Failed to update active document.'']\<rparr>
                | Inr u \<Rightarrow>
                    st0\<lparr>uploadedFiles :=
                          map (\<lambda>(i, d). d\<lparr>isActive := (i = activeIdx)\<rparr>)
                            (enumerate 0 (uploadedFiles st0)),
                        published := published st0 @ [Some selectedDoc]\<rparr>))"

text \<open>
  \<open>handleToggleIngested\<close> reads \<open>doc.ingested\<close> outside its \<open>try\<close>: an index out of
  range rejects the handler's promise with a \<open>TypeError\<close>, and nothing was changed.
\<close>

definition handleToggleIngested ::
  "nat \<Rightarrow> (js_error + unit) \<Rightarrow> admin_state \<Rightarrow> js_error + admin_state" where
  "handleToggleIngested idx answer st =
     (case js_index (uploadedFiles st) idx of
        None \<Rightarrow> Inl (TypeError ''Cannot read properties of undefined'')
      | Some doc \<Rightarrow>
          (let newStatus = (\<not> ingested doc);
               st0 = st\<lparr>network := network st @
                       [UpdateIngestedStatus (js_or (doc_id doc) (filename doc)) newStatus]\<rparr>
           in case answer of
                Inl e \<Rightarrow> Inr (st0\<lparr>alerts := alerts st0 @ [''Failed to update ingested status.'']\<rparr>)
              | Inr u \<Rightarrow>
                  (let updated =
                         map (\<lambda>(i, d). if i = idx
                                then d\<lparr>ingested := newStatus, isActive := newStatus\<rparr>
                                else d\<lparr>isActive := False\<rparr>)
                           (enumerate 0 (uploadedFiles st0))
                   in Inr (st0\<lparr>uploadedFiles := updated,
                                published := published st0 @ [find isActive updated]\<rparr>))))"

text \<open>
  The registry as a transition system: the states it reaches from the empty list by its
  three operations, and by anything else that leaves the document list alone (uploads,
  timers, the demo state).
\<close>

inductive registry_reachable :: "admin_state \<Rightarrow> bool" where
  initial: "uploadedFiles st = [] \<Longrightarrow> registry_reachable st"
| other: "registry_reachable st \<Longrightarrow> uploadedFiles st' = uploadedFiles st \<Longrightarrow>
     registry_reachable st'"
| refresh: "registry_reachable st \<Longrightarrow> registry_reachable (loadUploadedFiles response st)"
| setActive: "registry_reachable st \<Longrightarrow> registry_reachable (handleSetActive i answer st)"
| toggleIngested:
    "registry_reachable st \<Longrightarrow> handleToggleIngested i answer st = Inr st' \<Longrightarrow>
     registry_reachable st'"

section \<open>Upload and processing monitor (AdminDashboard.jsx)\<close>

record upload_file =
  file_name :: string
  file_size :: nat

definition allowedTypes :: "string list" where
  "allowedTypes = [''.pdf'', ''.docx'', ''.txt'']"

text \<open>
  \<open>s.split(sep)\<close> for a one-character separator: the segments between the separators,
  never an empty array.
\<close>

fun js_split :: "char \<Rightarrow> string \<Rightarrow> string list" where
  "js_split sep [] = [[]]"
| "js_split sep (c # cs) =
     (if c = sep then [] # js_split sep cs
      else (case js_split sep cs of
              [] \<Rightarrow> [[c]]
            | seg # segs \<Rightarrow> (c # seg) # segs))"

text \<open>
  \<open>toLowerCase\<close> on the code units 0..255: the letters A..Z and the Latin-1 capitals
  (192..222 without the multiplication sign 215) move up by 32.
\<close>

definition toLowerCase_char :: "char \<Rightarrow> char" where
  "toLowerCase_char c =
     (let n = (of_char c :: nat)
      in if (65 \<le> n \<and> n \<le> 90) \<or> (192 \<le> n \<and> n \<le> 222 \<and> n \<noteq> 215)
         then char_of (n + 32) else c)"

definition toLowerCase :: "string \<Rightarrow> string" where
  "toLowerCase s = map toLowerCase_char s"

text \<open>\<open>'.' + file.name.split('.').pop().toLowerCase()\<close>\<close>

definition fileExt :: "upload_file \<Rightarrow> string" where
  "fileExt f = ''.'' @ toLowerCase (last (js_split (CHR ''.'') (file_name f)))"

text \<open>\<open>monitorProcessing\<close> registers the polling interval and returns.\<close>

definition monitorProcessing :: "string \<Rightarrow> string \<Rightarrow> admin_state \<Rightarrow> admin_state" where
  "monitorProcessing taskId fname st = st\<lparr>timers := timers st @ [MonitorInterval taskId fname]\<rparr>"

definition upload_failed :: "string \<Rightarrow> js_error \<Rightarrow> admin_state \<Rightarrow> admin_state" where
  "upload_failed fname e st =
     st\<lparr>uploadProgress := (uploadProgress st)(fname \<mapsto>
          \<lparr>progress = 0, status = ''error'', message = None,
           error_text = Some (error_message e)\<rparr>)\<rparr>"

text \<open>
  \<open>handleFileUpload\<close>. The arguments after the file are what the upload does: the
  progress values the transfer reports, in order, and the answer (the \<open>task_id\<close> of the
  response, or the rejection).
\<close>

definition handleFileUpload ::
  "upload_file \<Rightarrow> rat list \<Rightarrow> (js_error + string option) \<Rightarrow> admin_state \<Rightarrow> admin_state" where
  "handleFileUpload f progress_events answer st =
     (if fileExt f \<notin> set allowedTypes then
        st\<lparr>alerts := alerts st @
          [''Unsupported file format. Please upload PDF, DOCX, or TXT files only.'']\<rparr>
      else if file_size f > 200 * 1024 * 1024 then
        st\<lparr>alerts := alerts st @ [''File too large. Maximum size is 200MB.'']\<rparr>
      else
        (let st1 = st\<lparr>uploadProgress := (uploadProgress st)(file_name f \<mapsto>
                        \<lparr>progress = 0, status = ''uploading'', message = None,
                         error_text = None\<rparr>)\<rparr>;
             st2 = st1\<lparr>network := network st1 @ [UploadDocument (file_name f)]\<rparr>;
             st3 = foldl (\<lambda>s p. s\<lparr>uploadProgress := (uploadProgress s)(file_name f \<mapsto>
                        \<lparr>progress = p, status = ''uploading'', message = None,
                         error_text = None\<rparr>)\<rparr>) st2 progress_events
         in case answer of
              Inl e \<Rightarrow> upload_failed (file_name f) e st3
            | Inr None \<Rightarrow>
                upload_failed (file_name f) (Error ''Upload response missing task_id'') st3
            | Inr (Some taskId) \<Rightarrow>
                if taskId = [] then
                  upload_failed (file_name f) (Error ''Upload response missing task_id'') st3
                else monitorProcessing taskId (file_name f) st3))"

text \<open>The body of a status response; the whole body may be \<open>null\<close>.\<close>

record status_response =
  resp_status :: "string option"
  resp_progress :: "rat option"
  resp_message :: "string option"

text \<open>
  One run of the interval callback of \<open>monitorProcessing\<close>, with the answer of the
  status request and, for the refresh it may start, the answer of the list request.
\<close>

definition monitorProcessing_tick ::
  "string \<Rightarrow> string \<Rightarrow> (js_error + status_response option) \<Rightarrow>
   (js_error + backend_doc list option) \<Rightarrow> admin_state \<Rightarrow> admin_state" where
  "monitorProcessing_tick taskId fname answer list_answer st =
     (let st0 = st\<lparr>network := network st @ [GetProcessingStatus taskId]\<rparr> in
      case answer of
        Inl e \<Rightarrow>
          st0\<lparr>timers := remove1 (MonitorInterval taskId fname) (timers st0),
              uploadProgress := (uploadProgress st0)(fname \<mapsto>
                \<lparr>progress = 0, status = ''error'', message = None,
                 error_text = Some ''Processing failed''\<rparr>)\<rparr>
      | Inr body \<Rightarrow>
          (let stat = (case body of None \<Rightarrow> None | Some r \<Rightarrow> resp_status r);
               st1 = st0\<lparr>uploadProgress := (uploadProgress st0)(fname \<mapsto>
                 \<lparr>progress = (case body of None \<Rightarrow> 0
                              | Some r \<Rightarrow> (case resp_progress r of None \<Rightarrow> 0 | Some p \<Rightarrow> p)),
                  status = (case stat of None \<Rightarrow> ''unknown'' | Some s \<Rightarrow> s),
                  message = Some (case body of None \<Rightarrow> []
                              | Some r \<Rightarrow> (case resp_message r of None \<Rightarrow> [] | Some m \<Rightarrow> m)),
                  error_text = None\<rparr>)\<rparr>
           in if stat = Some ''completed'' \<or> stat = Some ''error'' then
                (let st2 = st1\<lparr>timers := remove1 (MonitorInterval taskId fname) (timers st1)\<rparr>
                 in if stat = Some ''completed'' then
                      (let st3 = loadUploadedFiles list_answer st2
                       in st3\<lparr>timers := timers st3 @ [RemoveProgressTimeout fname]\<rparr>)
                    else st2)
              else st1))"

section \<open>Demo ingestion (AdminDashboard.jsx)\<close>

text \<open>The demo documents, each as (filename, task_id).\<close>

definition DEMO_FILES :: "(string \<times> string) list" where
  "DEMO_FILES = [(''sample w graph.pdf'', ''demo_graph''), (''sampledata.pdf'', ''demo_data'')]"

text \<open>
  The first loop of \<open>startDemoIngestion\<close>: one ingest request per demo document, stopped
  by the first rejection. The backend is a function from the task id to its answer.
\<close>

fun trigger_all ::
  "(string \<Rightarrow> js_error + unit) \<Rightarrow> (string \<times> string) list \<Rightarrow> admin_state \<Rightarrow>
   js_error option \<times> admin_state" where
  "trigger_all backend [] st = (None, st)"
| "trigger_all backend ((fname, tid) # fs) st =
     (let st1 = st\<lparr>network := network st @ [TriggerDemoFileIngest tid]\<rparr>
      in case backend tid of
           Inl e \<Rightarrow> (Some e, st1)
         | Inr u \<Rightarrow> trigger_all backend fs st1)"

text \<open>
  The loop of \<open>pollStatuses\<close>: it throws when a status request is rejected or its body
  is \<open>null\<close>, and stops with \<open>allDone = false\<close> at the first document that is not
  completed.
\<close>

datatype poll_outcome = Threw js_error | AllDone bool

fun poll_all ::
  "(string \<Rightarrow> js_error + status_response option) \<Rightarrow> (string \<times> string) list \<Rightarrow>
   admin_state \<Rightarrow> poll_outcome \<times> admin_state" where
  "poll_all backend [] st = (AllDone True, st)"
| "poll_all backend ((fname, tid) # fs) st =
     (let st1 = st\<lparr>network := network st @ [GetProcessingStatus tid]\<rparr>
      in case backend tid of
           Inl e \<Rightarrow> (Threw e, st1)
         | Inr None \<Rightarrow> (Threw (TypeError ''Cannot read properties of null''), st1)
         | Inr (Some statusResp) \<Rightarrow>
             if resp_status statusResp \<noteq> Some ''completed'' then (AllDone False, st1)
             else poll_all backend fs st1)"

text \<open>
  One run of \<open>pollStatuses\<close>. When not all documents are done it registers itself again
  with \<open>setTimeout\<close>; nobody awaits it, so an exception of the loop ends the run and
  changes nothing more. (The message of the source starts with a check-mark emoji, which
  is outside the character type and left out.)
\<close>

definition pollStatuses ::
  "(string \<Rightarrow> js_error + status_response option) \<Rightarrow>
   (js_error + backend_doc list option) \<Rightarrow> admin_state \<Rightarrow> admin_state" where
  "pollStatuses backend list_answer st =
     (case poll_all backend DEMO_FILES st of
        (Threw e, st1) \<Rightarrow> st1
      | (AllDone allDone, st1) \<Rightarrow>
          if allDone then
            loadUploadedFiles list_answer
              (st1\<lparr>demoIngestState :=
                 \<lparr>demo_status = Some ''done'',
                  demo_messages = ['' All demo documents processed successfully!'']\<rparr>\<rparr>)
          else st1\<lparr>timers := timers st1 @ [PollStatusesTimeout]\<rparr>)"

definition startDemoIngestion ::
  "(string \<Rightarrow> js_error + unit) \<Rightarrow> (string \<Rightarrow> js_error + status_response option) \<Rightarrow>
   (js_error + backend_doc list option) \<Rightarrow> admin_state \<Rightarrow> admin_state" where
  "startDemoIngestion trigger_backend poll_backend list_answer st =
     (let st0 = st\<lparr>demoIngestState :=
                 \<lparr>demo_status = Some ''processing'',
                  demo_messages =
                    map (\<lambda>(fname, tid). ''Processing '' @ fname @ ''...'') DEMO_FILES\<rparr>\<rparr>
      in case trigger_all trigger_backend DEMO_FILES st0 of
           (Some e, st1) \<Rightarrow>
             st1\<lparr>demoIngestState :=
                 \<lparr>demo_status = Some ''error'',
                  demo_messages = [''Error processing demo files. Please try again.'']\<rparr>\<rparr>
         | (None, st1) \<Rightarrow> pollStatuses poll_backend list_answer st1)"

text \<open>The effect that loads the persisted flag when the dashboard is mounted.\<close>

definition load_demo_flag :: "admin_state \<Rightarrow> admin_state" where
  "load_demo_flag st =
     (if localStorage st ''demoFilesIngested'' = Some ''true''
      then st\<lparr>demoIngested := True\<rparr> else st)"

text \<open>The effect on \<open>[isDemoMode, demoIngested]\<close>.\<close>

definition demo_effect ::
  "(string \<Rightarrow> js_error + unit) \<Rightarrow> (string \<Rightarrow> js_error + status_response option) \<Rightarrow>
   (js_error + backend_doc list option) \<Rightarrow> admin_state \<Rightarrow> admin_state" where
  "demo_effect trigger_backend poll_backend list_answer st =
     (if isDemoMode st \<and> \<not> demoIngested st then
        startDemoIngestion trigger_backend poll_backend list_answer st
      else if \<not> isDemoMode st then
        loadUploadedFiles list_answer
          (st\<lparr>demoIngestState := \<lparr>demo_status = None, demo_messages = []\<rparr>,
              demoIngested := False,
              localStorage := (localStorage st)(''demoFilesIngested'' := None)\<rparr>)
      else st)"

section \<open>Application state and session bootstrap (App.jsx)\<close>

record message =
  role :: string
  content :: "string option"
  timestamp :: string
  confidence :: "rat option"
  sourcesUsed :: "int option"
  is_error :: bool

record session =
  sessionId :: string
  createdAt :: string
  session_messages :: "message list"

record identity =
  username :: string

text \<open>The state of \<open>App\<close>; instants (\<open>new Date()\<close>) are kept as their text.\<close>

record app_state = browser +
  user :: "identity option"
  currentView :: string
  isLoading :: bool
  activeDocument :: "document option"
  chatSessions :: "session list"
  activeSessionId :: "string option"

definition greeting_text :: string where
  "greeting_text = ''Hello! I'm your document assistant. How can I help you today?''"

text \<open>The \<open>catch\<close> and \<open>finally\<close> blocks of \<open>checkSessionAndLoadChats\<close>.\<close>

definition session_check_failed :: "'a app_state_scheme \<Rightarrow> 'a app_state_scheme" where
  "session_check_failed st = st\<lparr>localStorage := Map.empty, user := None, isLoading := False\<rparr>"

text \<open>
  \<open>checkSessionAndLoadChats\<close>. \<open>JSON_parse\<close> is \<open>JSON.parse\<close> on the stored identity,
  \<open>answer\<close> is what the backend would answer to a request for the chat sessions (the
  \<open>sessions\<close> property of the body), \<open>now_ms\<close> is \<open>Date.now()\<close> in decimal and
  \<open>now_iso\<close> the same instant as text. The request goes through
  \<open>apiService.getChatSessions()\<close>.
\<close>

definition checkSessionAndLoadChats ::
  "(string \<Rightarrow> js_error + identity option) \<Rightarrow> (js_error + session list option) \<Rightarrow>
   string \<Rightarrow> string \<Rightarrow> 'a app_state_scheme \<Rightarrow> 'a app_state_scheme" where
  "checkSessionAndLoadChats JSON_parse answer now_ms now_iso st =
     (case localStorage st ''user'' of
        None \<Rightarrow> st\<lparr>isLoading := False\<rparr>
      | Some storedUser \<Rightarrow>
          if storedUser \<noteq> [] \<and> truthy (localStorage st ''access_token'') then
            (case JSON_parse storedUser of
               Inl e \<Rightarrow> session_check_failed st
             | Inr userJson \<Rightarrow>
                 (let st1 = st\<lparr>user := userJson\<rparr>
                  in case call_method ''getChatSessions'' answer of
                       Inl e \<Rightarrow> session_check_failed st1
                     | Inr sessions \<Rightarrow>
                         (case sessions of
                            Some (s0 # rest) \<Rightarrow>
                              st1\<lparr>chatSessions := s0 # rest,
                                  activeSessionId := Some (sessionId s0),
                                  isLoading := False\<rparr>
                          | _ \<Rightarrow>
                              (let newSessionId = ''chat_'' @ now_ms
                               in st1\<lparr>chatSessions :=
                                        [\<lparr>sessionId = newSessionId, createdAt = now_iso,
                                          session_messages =
                                            [\<lparr>role = ''assistant'',
                                              content = Some greeting_text,
                                              timestamp = now_iso, confidence = None,
                                              sourcesUsed = None, is_error = False\<rparr>]\<rparr>],
                                      activeSessionId := Some newSessionId,
                                      isLoading := False\<rparr>))))
          else st\<lparr>isLoading := False\<rparr>)"

section \<open>Chat session manager (ChatInterface.jsx)\<close>

text \<open>
  The state \<open>ChatInterface\<close> works on: the state of \<open>App\<close> it gets as props, and its
  own.
\<close>

record chat_state = app_state +
  messages :: "message list"
  inputMessage :: string
  loading :: bool
  hasDocument :: bool

text \<open>\<open>BOT_GREETING\<close>; its timestamp \<open>t0\<close> is the instant the module was loaded.\<close>

definition BOT_GREETING :: "string \<Rightarrow> message" where
  "BOT_GREETING t0 =
     \<lparr>role = ''assistant'', content = Some greeting_text, timestamp = t0,
      confidence = None, sourcesUsed = None, is_error = False\<rparr>"

text \<open>\<open>xs.findIndex(P)\<close>, with \<open>None\<close> for \<open>-1\<close>.\<close>

fun findIndex :: "('a \<Rightarrow> bool) \<Rightarrow> 'a list \<Rightarrow> nat option" where
  "findIndex P [] = None"
| "findIndex P (x # xs) = (if P x then Some 0 else map_option Suc (findIndex P xs))"

text \<open>
  \<open>loadChatHistory\<close>; \<open>answer\<close> is the \<open>history\<close> property of the response (a \<open>null\<close>
  body makes \<open>resp.history\<close> throw, which is a rejection here), \<open>now\<close> the instant of
  the call.
\<close>

definition loadChatHistory ::
  "string \<Rightarrow> string \<Rightarrow> (js_error + message list option) \<Rightarrow> string \<Rightarrow>
   chat_state \<Rightarrow> chat_state" where
  "loadChatHistory t0 sid answer now st =
     (let st0 = st\<lparr>network := network st @ [GetChatHistory sid]\<rparr> in
      case answer of
        Inl e \<Rightarrow> st0\<lparr>messages := [BOT_GREETING t0]\<rparr>
      | Inr history \<Rightarrow>
          (let loaded0 = (case history of None \<Rightarrow> [] | Some h \<Rightarrow> h);
               loaded = (if length loaded0 = 0 then [BOT_GREETING t0] else loaded0);
               prev = chatSessions st0
           in st0\<lparr>messages := loaded,
                  chatSessions :=
                    (case findIndex (\<lambda>s. sessionId s = sid) prev of
                       Some index \<Rightarrow>
                         prev[index := \<lparr>sessionId = sid, createdAt = createdAt (prev ! index),
                                        session_messages = loaded\<rparr>]
                     | None \<Rightarrow>
                         prev @ [\<lparr>sessionId = sid, createdAt = now,
                                  session_messages = loaded\<rparr>])\<rparr>))"






text \<open>\<open>handleClearAllChats\<close>; \<open>confirmed\<close> is what \<open>window.confirm\<close> returns.\<close>

definition handleClearAllChats ::
  "bool \<Rightarrow> (js_error + unit) \<Rightarrow> chat_state \<Rightarrow> chat_state" where
  "handleClearAllChats confirmed answer st =
     (if \<not> confirmed then st
      else
        (let st0 = st\<lparr>network := network st @ [ClearAllChatHistory]\<rparr>
         in case answer of
              Inr u \<Rightarrow> st0\<lparr>chatSessions := [], activeSessionId := None, messages := []\<rparr>
            | Inl e \<Rightarrow>
                st0\<lparr>alerts := alerts st0 @
                  [''Failed to clear chat history. Please try again.'']\<rparr>))"


section \<open>Properties as the specification words them\<close>

text \<open>The number of entries of the registry that are marked active.\<close>

definition active_count :: "document list \<Rightarrow> nat" where
  "active_count files = length (filter isActive files)"

text \<open>
  Index \<open>i\<close> is "the last document in list order whose status is completed": it is
  completed and none after it is.
\<close>

definition spec_last_completed :: "backend_doc list \<Rightarrow> nat \<Rightarrow> bool" where
  "spec_last_completed arr i =
     (i < length arr \<and> completed (arr ! i) \<and>
      list_all (\<lambda>d. \<not> completed d) (drop (Suc i) arr))"

section \<open>Concrete inputs\<close>

definition example_doc :: "string \<Rightarrow> string \<Rightarrow> backend_doc" where
  "example_doc n s =
     \<lparr>doc_id = None, task_id = Some n, filename = Some n, processing_status = Some s\<rparr>"

text \<open>The dashboard as it is mounted, and the chat as \<open>App\<close> first renders it.\<close>

definition admin_init :: admin_state where
  "admin_init =
     \<lparr>localStorage = Map.empty, alerts = [], network = [],
      uploadedFiles = [], uploadProgress = Map.empty, isDemoMode = False,
      demoIngestState = \<lparr>demo_status = None, demo_messages = []\<rparr>,
      demoIngested = False, timers = [], published = []\<rparr>"

definition chat_init :: chat_state where
  "chat_init =
     \<lparr>localStorage = Map.empty, alerts = [], network = [],
      user = None, currentView = ''chat'', isLoading = True, activeDocument = None,
      chatSessions = [], activeSessionId = None,
      messages = [], inputMessage = [], loading = False, hasDocument = False\<rparr>"

text \<open>The registry after a refresh that lists one completed document.\<close>

definition registry_one_active :: admin_state where
  "registry_one_active =
     loadUploadedFiles (Inr (Some [example_doc ''report.pdf'' ''completed''])) admin_init"

text \<open>A chat with one restored session, selected and shown.\<close>

definition chat_with_session :: chat_state where
  "chat_with_session =
     chat_init\<lparr>chatSessions :=
                 [\<lparr>sessionId = ''chat_1'', createdAt = ''2024-01-01T00:00:00.000Z'',
                   session_messages = [BOT_GREETING ''2024-01-01T00:00:00.000Z'']\<rparr>],
               activeSessionId := Some ''chat_1'',
               messages := [BOT_GREETING ''2024-01-01T00:00:00.000Z'']\<rparr>"


text \<open>
  The application at its start after an earlier login: identity and token are in
  \<open>localStorage\<close>, the identity parses, and the backend holds one chat session.
\<close>

definition stored_login :: "string \<rightharpoonup> string" where
  "stored_login = [''user'' \<mapsto> ''{username: alice}'', ''access_token'' \<mapsto> ''token-1'']"

definition parse_identity :: "string \<Rightarrow> js_error + identity option" where
  "parse_identity s =
     (if s = ''{username: alice}'' then Inr (Some \<lparr>username = ''alice''\<rparr>)
      else Inl (Error ''Unexpected token''))"

definition app_start :: chat_state where
  "app_start = chat_init\<lparr>localStorage := stored_login\<rparr>"

definition backend_session :: session where
  "backend_session =
     \<lparr>sessionId = ''s-42'', createdAt = ''2024-01-01T00:00:00.000Z'', session_messages = []\<rparr>"

text \<open>Files: one of exactly 200 MiB, and one whose whole name is PDF in capitals.\<close>

definition file_of_200MiB :: upload_file where
  "file_of_200MiB = \<lparr>file_name = ''report.pdf'', file_size = 209715200\<rparr>"

definition file_named_PDF :: upload_file where
  "file_named_PDF = \<lparr>file_name = ''PDF'', file_size = 1024\<rparr>"

text \<open>
  A backend on which every demo ingest succeeds and every status request reports
  completed, and the dashboard mounted with demo mode on.
\<close>

definition demo_trigger_ok :: "string \<Rightarrow> js_error + unit" where
  "demo_trigger_ok tid = Inr ()"

definition demo_poll_completed :: "string \<Rightarrow> js_error + status_response option" where
  "demo_poll_completed tid =
     Inr (Some \<lparr>resp_status = Some ''completed'', resp_progress = Some 100,
                resp_message = None\<rparr>)"

definition demo_mode_on :: admin_state where
  "demo_mode_on = admin_init\<lparr>isDemoMode := True\<rparr>"

section \<open>Document registry: the refresh\<close>

lemma loadUploadedFiles_files:
  "uploadedFiles (loadUploadedFiles (Inr documents) st) =
     (let arr = (case documents of None \<Rightarrow> [] | Some ds \<Rightarrow> ds)
      in map (\<lambda>(idx, f). derive_file arr idx f) (enumerate 0 arr))"
  by (simp add: loadUploadedFiles_def Let_def split: option.splits)

lemma loadUploadedFiles_failed:
  "uploadedFiles (loadUploadedFiles (Inl e) st) = []"
  by (simp add: loadUploadedFiles_def Let_def)

lemma loadUploadedFiles_published:
  "published (loadUploadedFiles (Inr documents) st) =
     published st @
       (case find isActive (uploadedFiles (loadUploadedFiles (Inr documents) st)) of
          None \<Rightarrow> [] | Some activeFile \<Rightarrow> [Some activeFile])"
  by (simp add: loadUploadedFiles_def Let_def split: option.splits)

lemma refresh_length:
  "length (uploadedFiles (loadUploadedFiles (Inr (Some arr)) st)) = length arr"
  by (simp add: loadUploadedFiles_files)

lemma refresh_nth:
  "i < length arr \<Longrightarrow>
   uploadedFiles (loadUploadedFiles (Inr (Some arr)) st) ! i = derive_file arr i (arr ! i)"
  by (simp add: loadUploadedFiles_files nth_enumerate_eq)

text \<open>
  What the refresh marks, on every list: the entry whose index is the number of
  completed documents less one, when that entry is completed.
\<close>

lemma refresh_isActive_iff:
  "i < length arr \<Longrightarrow>
   isActive (uploadedFiles (loadUploadedFiles (Inr (Some arr)) st) ! i) \<longleftrightarrow>
     int i = int (length (filter completed arr)) - 1 \<and> completed (arr ! i)"
  by (simp add: refresh_nth derive_file_def)

text \<open>
  C1 at the list of a document still processing followed by a completed one. The
  completed document is the last document in list order whose status is completed, so
  the claim has it marked active and published. The refresh compares the index in the
  full list with the number of completed documents less one, which is the index in the
  filtered list: here that number is 0, the entry at index 0 is not completed, and so no
  entry is marked active and nothing is published.
\<close>

theorem refresh_misses_last_completed:
  "spec_last_completed
     [example_doc ''a.pdf'' ''processing'', example_doc ''b.pdf'' ''completed''] 1 \<and>
   map isActive (uploadedFiles (loadUploadedFiles
       (Inr (Some [example_doc ''a.pdf'' ''processing'', example_doc ''b.pdf'' ''completed'']))
       admin_init)) = [False, False] \<and>
   published (loadUploadedFiles
       (Inr (Some [example_doc ''a.pdf'' ''processing'', example_doc ''b.pdf'' ''completed'']))
       admin_init) = []"
  by (simp add: loadUploadedFiles_def example_doc_def admin_init_def derive_file_def
      completed_def spec_last_completed_def Let_def)

section \<open>Document registry: at most one active document\<close>

lemma filter_mapi_above:
  assumes "\<And>j d. P (h j d) \<Longrightarrow> j = k" and "k < n"
  shows "filter P (map (\<lambda>(j, d). h j d) (enumerate n xs)) = []"
  using assms(2)
proof (induction xs arbitrary: n)
  case Nil
  then show ?case by simp
next
  case (Cons x xs)
  have "\<not> P (h n x)" using assms(1) Cons.prems by auto
  moreover have "filter P (map (\<lambda>(j, d). h j d) (enumerate (Suc n) xs)) = []"
    using Cons.IH [of "Suc n"] Cons.prems by simp
  ultimately show ?case by simp
qed

lemma filter_mapi_le_one:
  assumes "\<And>j d. P (h j d) \<Longrightarrow> j = k"
  shows "length (filter P (map (\<lambda>(j, d). h j d) (enumerate n xs))) \<le> 1"
proof (induction xs arbitrary: n)
  case Nil
  then show ?case by simp
next
  case (Cons x xs)
  show ?case
  proof (cases "P (h n x)")
    case True
    then have "n = k" using assms by auto
    then have "filter P (map (\<lambda>(j, d). h j d) (enumerate (Suc n) xs)) = []"
      using filter_mapi_above [of P h k "Suc n" xs] assms by simp
    then show ?thesis by simp
  next
    case False
    then show ?thesis using Cons.IH [of "Suc n"] by simp
  qed
qed

lemma refresh_at_most_one:
  "active_count (uploadedFiles (loadUploadedFiles response st)) \<le> 1"
proof (cases response)
  case (Inl e)
  then show ?thesis by (simp add: loadUploadedFiles_failed active_count_def)
next
  case (Inr documents)
  define arr where "arr = (case documents of None \<Rightarrow> [] | Some ds \<Rightarrow> ds)"
  have "\<And>j d. isActive (derive_file arr j d) \<Longrightarrow>
          j = nat (int (length (filter completed arr)) - 1)"
    by (auto simp: derive_file_def)
  then have "length (filter isActive
                (map (\<lambda>(j, d). derive_file arr j d) (enumerate 0 arr))) \<le> 1"
    by (rule filter_mapi_le_one)
  then show ?thesis
    using Inr by (simp add: loadUploadedFiles_files active_count_def arr_def Let_def)
qed

lemma setActive_at_most_one:
  "active_count (uploadedFiles (handleSetActive i answer st)) \<le> 1
   \<or> uploadedFiles (handleSetActive i answer st) = uploadedFiles st"
proof -
  have "length (filter isActive
          (map (\<lambda>(j, d). d\<lparr>isActive := (j = i)\<rparr>) (enumerate 0 (uploadedFiles st)))) \<le> 1"
    by (rule filter_mapi_le_one [where k = i]) simp
  then show ?thesis
    by (auto simp: handleSetActive_def Let_def active_count_def
        split: option.splits sum.splits)
qed

lemma toggle_at_most_one:
  assumes "handleToggleIngested i answer st = Inr st'"
  shows "active_count (uploadedFiles st') \<le> 1 \<or> uploadedFiles st' = uploadedFiles st"
proof -
  have "length (filter isActive
          (map (\<lambda>(j, d). if j = i then d\<lparr>ingested := b, isActive := b\<rparr>
                          else d\<lparr>isActive := False\<rparr>)
             (enumerate 0 (uploadedFiles st)))) \<le> 1" for b
    by (rule filter_mapi_le_one [where k = i]) (simp split: if_splits)
  then show ?thesis using assms
    by (auto simp: handleToggleIngested_def Let_def active_count_def
        split: option.splits sum.splits)
qed

lemma reachable_at_most_one:
  "registry_reachable st \<Longrightarrow> active_count (uploadedFiles st) \<le> 1"
proof (induction rule: registry_reachable.induct)
  case (initial st)
  then show ?case by (simp add: active_count_def)
next
  case (other st st')
  then show ?case by (simp add: active_count_def)
next
  case (refresh st response)
  show ?case by (rule refresh_at_most_one)
next
  case (setActive st i answer)
  then show ?case using setActive_at_most_one [of i answer st] by auto
next
  case (toggleIngested st i answer st')
  then show ?case using toggle_at_most_one [of i answer st st'] by auto
qed

text \<open>
  C2: after every registry operation at most one entry of the document collection has
  isActive = true. A refresh gives such a collection whatever the backend answers.
  setActive(index) and toggleIngested(index) give one on every list and every index, or
  leave the collection as it was (the target has no identifier, the index is out of
  range, or the backend call fails). So every collection the registry reaches from the
  empty one, by any sequence of the three operations, has at most one active entry.
\<close>

theorem registry_at_most_one_active:
  "active_count (uploadedFiles (loadUploadedFiles response st)) \<le> 1 \<and>
   (active_count (uploadedFiles (handleSetActive i answer st)) \<le> 1 \<or>
    uploadedFiles (handleSetActive i answer st) = uploadedFiles st) \<and>
   (\<forall>st'. handleToggleIngested i answer st = Inr st' \<longrightarrow>
      active_count (uploadedFiles st') \<le> 1 \<or> uploadedFiles st' = uploadedFiles st) \<and>
   (registry_reachable st \<longrightarrow> active_count (uploadedFiles st) \<le> 1)"
  using refresh_at_most_one [of response st] setActive_at_most_one [of i answer st]
    toggle_at_most_one [of i answer st] reachable_at_most_one [of st]
  by blast

text \<open>
  C2 at the registry that lists one completed document: it is reachable, a toggle of its
  entry succeeds, and both collections have at most one active entry.
\<close>

theorem registry_at_most_one_active_witness:
  "registry_reachable registry_one_active \<and>
   active_count (uploadedFiles registry_one_active) \<le> 1 \<and>
   \<not> isl (handleToggleIngested 0 (Inr ()) registry_one_active) \<and>
   active_count
     (uploadedFiles (projr (handleToggleIngested 0 (Inr ()) registry_one_active))) \<le> 1"
proof -
  have r: "registry_reachable registry_one_active"
    unfolding registry_one_active_def
    by (rule registry_reachable.refresh, rule registry_reachable.initial)
       (simp add: admin_init_def)
  have n: "length (uploadedFiles registry_one_active) = 1"
    by (simp add: registry_one_active_def refresh_length)
  have t: "\<not> isl (handleToggleIngested 0 (Inr ()) registry_one_active)"
    using n by (simp add: handleToggleIngested_def js_index_def Let_def)
  then have e: "handleToggleIngested 0 (Inr ()) registry_one_active =
      Inr (projr (handleToggleIngested 0 (Inr ()) registry_one_active))"
    by (cases "handleToggleIngested 0 (Inr ()) registry_one_active") simp_all
  show ?thesis
    using r t e
      registry_at_most_one_active [of "Inl (Error [])" registry_one_active 0 "Inr ()"]
    by metis
qed

section \<open>Document registry: the ingested toggle\<close>

text \<open>
  C4, as the claim states it, fails where the flip turns ingested from true to false:
  the toggle succeeds on the one ingested and active document of the registry, and the
  document is then neither ingested nor active.
\<close>

theorem toggleIngested_counterexample:
  "\<not> isl (handleToggleIngested 0 (Inr ()) registry_one_active) \<and>
   ingested (uploadedFiles registry_one_active ! 0) \<and>
   \<not> ingested
       (uploadedFiles (projr (handleToggleIngested 0 (Inr ()) registry_one_active)) ! 0) \<and>
   \<not> isActive
       (uploadedFiles (projr (handleToggleIngested 0 (Inr ()) registry_one_active)) ! 0)"
  by (simp add: handleToggleIngested_def js_index_def Let_def registry_one_active_def
      loadUploadedFiles_def derive_file_def completed_def example_doc_def admin_init_def)

text \<open>
  C4, amended: for every document list and every index of it, a successful
  toggleIngested(index) keeps the length of the list, flips the target's ingested flag,
  sets the target's isActive to the new value of ingested (true when the flip turns
  ingested on, false when it turns it off), and sets isActive = false on every other
  entry.
\<close>

theorem toggleIngested_active_follows_ingested:
  assumes "idx < length (uploadedFiles st)"
  shows "\<exists>st'. handleToggleIngested idx (Inr u) st = Inr st' \<and>
      length (uploadedFiles st') = length (uploadedFiles st) \<and>
      ingested (uploadedFiles st' ! idx) = (\<not> ingested (uploadedFiles st ! idx)) \<and>
      isActive (uploadedFiles st' ! idx) = (\<not> ingested (uploadedFiles st ! idx)) \<and>
      (\<forall>j<length (uploadedFiles st). j \<noteq> idx \<longrightarrow> \<not> isActive (uploadedFiles st' ! j))"
  using assms
  by (simp add: handleToggleIngested_def js_index_def Let_def nth_enumerate_eq)

text \<open>The amended C4 at the registry that lists one completed document.\<close>

theorem toggleIngested_active_follows_ingested_witness:
  "0 < length (uploadedFiles registry_one_active) \<and>
   ingested (uploadedFiles registry_one_active ! 0) \<and>
   \<not> isl (handleToggleIngested 0 (Inr ()) registry_one_active) \<and>
   length (uploadedFiles (projr (handleToggleIngested 0 (Inr ()) registry_one_active))) = 1 \<and>
   \<not> ingested
       (uploadedFiles (projr (handleToggleIngested 0 (Inr ()) registry_one_active)) ! 0) \<and>
   \<not> isActive
       (uploadedFiles (projr (handleToggleIngested 0 (Inr ()) registry_one_active)) ! 0)"
proof -
  have h: "0 < length (uploadedFiles registry_one_active)"
    by (simp add: registry_one_active_def refresh_length)
  have n: "length (uploadedFiles registry_one_active) = 1"
    by (simp add: registry_one_active_def refresh_length)
  have i: "ingested (uploadedFiles registry_one_active ! 0)"
    by (simp add: registry_one_active_def refresh_nth derive_file_def example_doc_def
        completed_def)
  obtain st' where t: "handleToggleIngested 0 (Inr ()) registry_one_active = Inr st'"
    and l: "length (uploadedFiles st') = length (uploadedFiles registry_one_active)"
    and g: "ingested (uploadedFiles st' ! 0) = (\<not> ingested (uploadedFiles registry_one_active ! 0))"
    and a: "isActive (uploadedFiles st' ! 0) = (\<not> ingested (uploadedFiles registry_one_active ! 0))"
    using toggleIngested_active_follows_ingested [OF h, of "()"] by blast
  show ?thesis
    using h n i l g a by (simp add: t)
qed

section \<open>Session bootstrap\<close>

text \<open>
  \<open>ApiService\<close> has no method \<open>getChatSessions\<close>, so whenever identity and token are
  stored the bootstrap ends in its \<open>catch\<close> block, whatever the backend holds.
\<close>

lemma getChatSessions_missing:
  "call_method ''getChatSessions'' answer =
     Inl (TypeError ''apiService.getChatSessions is not a function'')"
  by (simp add: call_method_def ApiService_methods_def)

lemma bootstrap_fails_closed:
  assumes "truthy (localStorage st ''user'')" and "truthy (localStorage st ''access_token'')"
  shows "checkSessionAndLoadChats JSON_parse answer now_ms now_iso st =
         st\<lparr>localStorage := Map.empty, user := None, isLoading := False\<rparr>"
  using assms
  by (auto simp: checkSessionAndLoadChats_def getChatSessions_missing session_check_failed_def
      truthy_def Let_def split: option.splits sum.splits)

text \<open>
  C3 at a start with identity and token stored and one session on the backend: the
  bootstrap calls \<open>apiService.getChatSessions()\<close>, which \<open>ApiService\<close> does not define;
  the call throws before any request, the \<open>catch\<close> block clears the storage and the
  identity, and no session is adopted or synthesized.
\<close>

theorem bootstrap_adopts_no_session:
  "truthy (localStorage app_start ''user'') \<and>
   truthy (localStorage app_start ''access_token'') \<and>
   checkSessionAndLoadChats parse_identity (Inr (Some [backend_session]))
       ''1704067200000'' ''2024-01-01T00:00:00.000Z'' app_start =
     app_start\<lparr>localStorage := Map.empty, user := None, isLoading := False\<rparr> \<and>
   chatSessions (checkSessionAndLoadChats parse_identity (Inr (Some [backend_session]))
       ''1704067200000'' ''2024-01-01T00:00:00.000Z'' app_start) = [] \<and>
   activeSessionId (checkSessionAndLoadChats parse_identity (Inr (Some [backend_session]))
       ''1704067200000'' ''2024-01-01T00:00:00.000Z'' app_start) = None \<and>
   network (checkSessionAndLoadChats parse_identity (Inr (Some [backend_session]))
       ''1704067200000'' ''2024-01-01T00:00:00.000Z'' app_start) = []"
proof -
  have u: "truthy (localStorage app_start ''user'')"
    by (simp add: app_start_def stored_login_def truthy_def)
  have t: "truthy (localStorage app_start ''access_token'')"
    by (simp add: app_start_def stored_login_def truthy_def)
  have "checkSessionAndLoadChats parse_identity (Inr (Some [backend_session]))
       ''1704067200000'' ''2024-01-01T00:00:00.000Z'' app_start =
     app_start\<lparr>localStorage := Map.empty, user := None, isLoading := False\<rparr>"
    using u t by (rule bootstrap_fails_closed)
  then show ?thesis
    using u t by (simp add: app_start_def chat_init_def)
qed

section \<open>Chat session manager\<close>

text \<open>
  C10: for every session id, when fetching the session's history fails the displayed
  message list becomes exactly the single greeting message, and the session collection
  (like the active session pointer) is left as it was.
\<close>

theorem loadChatHistory_failure_shows_greeting:
  "messages (loadChatHistory t0 sid (Inl e) now st) = [BOT_GREETING t0] \<and>
   chatSessions (loadChatHistory t0 sid (Inl e) now st) = chatSessions st \<and>
   activeSessionId (loadChatHistory t0 sid (Inl e) now st) = activeSessionId st"
  by (simp add: loadChatHistory_def Let_def)

text \<open>
  C5: for every prior session list and active session pointer, a confirmed clearAll()
  whose backend call fails leaves the session list, the active session pointer and the
  shown messages exactly as they were and alerts the user. The session list or the
  pointer change only when the user confirmed and the backend call succeeded, and then
  the list is empty and the pointer null; the request is sent in both cases.
\<close>

theorem clearAll_failure_keeps_sessions:
  "chatSessions (handleClearAllChats True (Inl e) st) = chatSessions st \<and>
   activeSessionId (handleClearAllChats True (Inl e) st) = activeSessionId st \<and>
   messages (handleClearAllChats True (Inl e) st) = messages st \<and>
   alerts (handleClearAllChats True (Inl e) st) =
     alerts st @ [''Failed to clear chat history. Please try again.''] \<and>
   (chatSessions (handleClearAllChats confirmed answer st) \<noteq> chatSessions st \<or>
    activeSessionId (handleClearAllChats confirmed answer st) \<noteq> activeSessionId st
      \<longrightarrow> confirmed \<and> (\<exists>u. answer = Inr u)) \<and>
   chatSessions (handleClearAllChats True (Inr u) st) = [] \<and>
   activeSessionId (handleClearAllChats True (Inr u) st) = None \<and>
   network (handleClearAllChats True answer st) = network st @ [ClearAllChatHistory]"
  by (auto simp: handleClearAllChats_def Let_def split: sum.splits)

text \<open>
  C5 at a chat with one session: a successful clearAll() changes the session list, and
  a failing one keeps it.
\<close>

theorem clearAll_failure_keeps_sessions_witness:
  "chatSessions (handleClearAllChats True (Inr ()) chat_with_session)
     \<noteq> chatSessions chat_with_session \<and>
   chatSessions (handleClearAllChats True (Inl (Error ''Failed to clear chat history''))
     chat_with_session) = chatSessions chat_with_session \<and>
   chatSessions chat_with_session \<noteq> []"
proof -
  have ne: "chatSessions chat_with_session \<noteq> []"
    by (simp add: chat_with_session_def)
  show ?thesis
    using ne
      clearAll_failure_keeps_sessions
        [of "Error ''Failed to clear chat history''" chat_with_session True "Inr ()" "()"]
    by simp
qed





section \<open>Upload validation\<close>

lemma js_split_not_Nil: "js_split sep s \<noteq> []"
  by (induction s) (auto split: list.splits)

lemma js_split_no_sep: "sep \<notin> set s \<Longrightarrow> js_split sep s = [s]"
  by (induction s) auto

lemma js_split_two: "length (js_split sep (a @ sep # b)) > 1"
  using js_split_not_Nil [of sep b]
  by (induction a) (auto split: list.splits)

lemma last_js_split_append:
  "last (js_split sep (a @ sep # b)) = last (js_split sep b)"
proof (induction a)
  case Nil
  then show ?case by (simp add: js_split_not_Nil)
next
  case (Cons c a)
  obtain seg s2 segs where e: "js_split sep (a @ sep # b) = seg # s2 # segs"
    using js_split_two [of sep a b]
    by (cases "js_split sep (a @ sep # b)"; cases "tl (js_split sep (a @ sep # b))") auto
  then show ?case using Cons by auto
qed

lemma fileExt_dotless:
  "CHR ''.'' \<notin> set (file_name f) \<Longrightarrow> fileExt f = ''.'' @ toLowerCase (file_name f)"
  by (simp add: fileExt_def js_split_no_sep)

lemma progress_events_keep:
  "network (foldl (\<lambda>s p. s\<lparr>uploadProgress := g s p\<rparr>) st ps) = network st \<and>
   alerts (foldl (\<lambda>s p. s\<lparr>uploadProgress := g s p\<rparr>) st ps) = alerts st \<and>
   timers (foldl (\<lambda>s p. s\<lparr>uploadProgress := g s p\<rparr>) st ps) = timers st"
  by (induction ps arbitrary: st) simp_all

lemma upload_accepted_network:
  assumes "fileExt f \<in> set allowedTypes" and "file_size f \<le> 200 * 1024 * 1024"
  shows "network (handleFileUpload f progress_events answer st) =
         network st @ [UploadDocument (file_name f)]"
  using assms
  by (simp add: handleFileUpload_def Let_def progress_events_keep upload_failed_def
      monitorProcessing_def split: sum.splits option.splits)

lemma fileExt_report_pdf: "fileExt \<lparr>file_name = ''report.pdf'', file_size = n\<rparr> = ''.pdf''"
  unfolding fileExt_def upload_file.simps by code_simp

lemma toLowerCase_PDF: "toLowerCase ''PDF'' = ''pdf''"
  by code_simp

lemma toLowerCase_TXT: "toLowerCase ''TXT'' = ''txt''"
  by code_simp

text \<open>
  C6, as the claim states it, fails at its boundary: a PDF of exactly 200 MiB
  (209715200 bytes) is not rejected; the upload request is sent, the progress map gets
  an entry for the file, and nothing is alerted.
\<close>

theorem upload_200MiB_counterexample:
  "file_size file_of_200MiB \<ge> 200 * 1024 * 1024 \<and>
   network (handleFileUpload file_of_200MiB [] (Inr (Some ''task-1'')) admin_init) =
     [UploadDocument ''report.pdf''] \<and>
   uploadProgress admin_init ''report.pdf'' = None \<and>
   uploadProgress (handleFileUpload file_of_200MiB [] (Inr (Some ''task-1'')) admin_init)
     ''report.pdf'' =
     Some \<lparr>progress = 0, status = ''uploading'', message = None, error_text = None\<rparr> \<and>
   alerts (handleFileUpload file_of_200MiB [] (Inr (Some ''task-1'')) admin_init) = []"
  by (simp add: handleFileUpload_def file_of_200MiB_def admin_init_def fileExt_report_pdf
      allowedTypes_def monitorProcessing_def Let_def)

text \<open>
  C6, amended: for every file whose size exceeds 200 MiB (more than 200 * 1024 * 1024
  bytes), the upload is rejected before any network call, with one user-visible alert
  (that the file is too large, or that its format is unsupported when the extension
  check already fails), with no change to the upload-progress map and no timer started.
\<close>

theorem upload_over_200MiB_rejected:
  assumes "file_size f > 200 * 1024 * 1024"
  shows "network (handleFileUpload f progress_events answer st) = network st \<and>
     uploadProgress (handleFileUpload f progress_events answer st) = uploadProgress st \<and>
     timers (handleFileUpload f progress_events answer st) = timers st \<and>
     alerts (handleFileUpload f progress_events answer st) =
       alerts st @
         [if fileExt f \<in> set allowedTypes then ''File too large. Maximum size is 200MB.''
          else ''Unsupported file format. Please upload PDF, DOCX, or TXT files only.'']"
  using assms by (simp add: handleFileUpload_def)

text \<open>The amended C6 at a PDF one byte over 200 MiB.\<close>

theorem upload_over_200MiB_rejected_witness:
  "file_size (file_of_200MiB\<lparr>file_size := 209715201\<rparr>) > 200 * 1024 * 1024 \<and>
   network (handleFileUpload (file_of_200MiB\<lparr>file_size := 209715201\<rparr>) []
     (Inr (Some ''task-1'')) admin_init) = [] \<and>
   alerts (handleFileUpload (file_of_200MiB\<lparr>file_size := 209715201\<rparr>) []
     (Inr (Some ''task-1'')) admin_init) = [''File too large. Maximum size is 200MB.'']"
proof -
  have h: "file_size (file_of_200MiB\<lparr>file_size := 209715201\<rparr>) > 200 * 1024 * 1024"
    by simp
  have e: "fileExt (file_of_200MiB\<lparr>file_size := 209715201\<rparr>) \<in> set allowedTypes"
    by (simp add: file_of_200MiB_def fileExt_report_pdf allowedTypes_def)
  have a: "network admin_init = []" "alerts admin_init = []"
    by (simp_all add: admin_init_def)
  show ?thesis
    using h e a
      upload_over_200MiB_rejected [OF h, of "[]" "Inr (Some ''task-1'')" admin_init]
    by simp
qed

text \<open>
  C9, as the claim states it, fails for dotless names that differ from pdf, docx and txt
  in letter case only: the file whose whole name is PDF passes the extension check and
  its upload request is sent.
\<close>

theorem upload_dotless_counterexample:
  "CHR ''.'' \<notin> set (file_name file_named_PDF) \<and>
   file_name file_named_PDF \<notin> {''pdf'', ''docx'', ''txt''} \<and>
   fileExt file_named_PDF \<in> set allowedTypes \<and>
   network (handleFileUpload file_named_PDF [] (Inr (Some ''task-1'')) admin_init) =
     [UploadDocument ''PDF'']"
  by (simp add: handleFileUpload_def file_named_PDF_def admin_init_def fileExt_def
      toLowerCase_PDF allowedTypes_def monitorProcessing_def Let_def)

text \<open>
  C9, amended: upload validation derives the extension as a dot followed by the
  lower-cased text after the last dot of the file name. So a file whose name contains
  no dot passes the extension check exactly when the whole name is pdf, docx or txt up
  to letter case; it is then uploaded when its size does not exceed 200 MiB; every
  other dotless file name is rejected with the alert for an unsupported format, and
  nothing else changes.
\<close>

theorem upload_dotless_names:
  "(CHR ''.'' \<notin> set b \<longrightarrow>
      fileExt \<lparr>file_name = a @ CHR ''.'' # b, file_size = n\<rparr> = ''.'' @ toLowerCase b) \<and>
   (CHR ''.'' \<notin> set (file_name f) \<longrightarrow>
      (fileExt f \<in> set allowedTypes \<longleftrightarrow>
         toLowerCase (file_name f) \<in> {''pdf'', ''docx'', ''txt''}) \<and>
      (toLowerCase (file_name f) \<in> {''pdf'', ''docx'', ''txt''} \<and>
       file_size f \<le> 200 * 1024 * 1024 \<longrightarrow>
         network (handleFileUpload f progress_events answer st) =
           network st @ [UploadDocument (file_name f)]) \<and>
      (toLowerCase (file_name f) \<notin> {''pdf'', ''docx'', ''txt''} \<longrightarrow>
         handleFileUpload f progress_events answer st =
           st\<lparr>alerts := alerts st @
             [''Unsupported file format. Please upload PDF, DOCX, or TXT files only.'']\<rparr>))"
proof (intro conjI impI)
  assume "CHR ''.'' \<notin> set b"
  then show "fileExt \<lparr>file_name = a @ CHR ''.'' # b, file_size = n\<rparr> = ''.'' @ toLowerCase b"
    by (simp add: fileExt_def last_js_split_append js_split_no_sep)
next
  assume d: "CHR ''.'' \<notin> set (file_name f)"
  show e: "fileExt f \<in> set allowedTypes \<longleftrightarrow>
         toLowerCase (file_name f) \<in> {''pdf'', ''docx'', ''txt''}"
    using d by (simp add: fileExt_dotless allowedTypes_def)
  {
    assume "toLowerCase (file_name f) \<in> {''pdf'', ''docx'', ''txt''} \<and>
       file_size f \<le> 200 * 1024 * 1024"
    then show "network (handleFileUpload f progress_events answer st) =
           network st @ [UploadDocument (file_name f)]"
      using e by (simp add: upload_accepted_network)
  }
  {
    assume "toLowerCase (file_name f) \<notin> {''pdf'', ''docx'', ''txt''}"
    then have "fileExt f \<notin> set allowedTypes" using e by simp
    then show "handleFileUpload f progress_events answer st =
           st\<lparr>alerts := alerts st @
             [''Unsupported file format. Please upload PDF, DOCX, or TXT files only.'']\<rparr>"
      by (simp add: handleFileUpload_def)
  }
qed

text \<open>
  The amended C9 at the dotless names PDF (uploaded) and report (rejected), and at the
  dotted name archive.tar.TXT, whose extension is .txt.
\<close>

theorem upload_dotless_names_witness:
  "CHR ''.'' \<notin> set ''TXT'' \<and>
   fileExt \<lparr>file_name = ''archive.tar.TXT'', file_size = 1\<rparr> = ''.txt'' \<and>
   CHR ''.'' \<notin> set (file_name file_named_PDF) \<and>
   toLowerCase (file_name file_named_PDF) \<in> {''pdf'', ''docx'', ''txt''} \<and>
   file_size file_named_PDF \<le> 200 * 1024 * 1024 \<and>
   network (handleFileUpload file_named_PDF [] (Inr (Some ''task-1'')) admin_init) =
     network admin_init @ [UploadDocument (file_name file_named_PDF)] \<and>
   CHR ''.'' \<notin> set (file_name \<lparr>file_name = ''report'', file_size = 1\<rparr>) \<and>
   toLowerCase (file_name \<lparr>file_name = ''report'', file_size = 1\<rparr>)
     \<notin> {''pdf'', ''docx'', ''txt''} \<and>
   handleFileUpload \<lparr>file_name = ''report'', file_size = 1\<rparr> [] (Inr (Some ''task-1''))
     admin_init =
     admin_init\<lparr>alerts := alerts admin_init @
       [''Unsupported file format. Please upload PDF, DOCX, or TXT files only.'']\<rparr>"
proof -
  have t: "CHR ''.'' \<notin> set ''TXT''" by simp
  have l: "toLowerCase ''TXT'' = ''txt''"
    by (rule toLowerCase_TXT)
  have d: "CHR ''.'' \<notin> set (file_name file_named_PDF)"
    by (simp add: file_named_PDF_def)
  have p: "toLowerCase (file_name file_named_PDF) \<in> {''pdf'', ''docx'', ''txt''}"
    by (simp add: file_named_PDF_def toLowerCase_PDF)
  have s: "file_size file_named_PDF \<le> 200 * 1024 * 1024"
    by (simp add: file_named_PDF_def)
  have d2: "CHR ''.'' \<notin> set (file_name \<lparr>file_name = ''report'', file_size = 1\<rparr>)"
    by simp
  have p2: "toLowerCase (file_name \<lparr>file_name = ''report'', file_size = 1\<rparr>)
     \<notin> {''pdf'', ''docx'', ''txt''}"
    by (simp add: toLowerCase_def)
  have first: "fileExt \<lparr>file_name = ''archive.tar.TXT'', file_size = 1\<rparr> = ''.txt'' \<and>
      network (handleFileUpload file_named_PDF [] (Inr (Some ''task-1'')) admin_init) =
        network admin_init @ [UploadDocument (file_name file_named_PDF)]"
    using t l d p s
      upload_dotless_names [of "''TXT''" "''archive.tar''" 1 file_named_PDF "[]"
        "Inr (Some ''task-1'')" admin_init]
    by simp
  have second: "handleFileUpload \<lparr>file_name = ''report'', file_size = 1\<rparr> []
      (Inr (Some ''task-1'')) admin_init =
     admin_init\<lparr>alerts := alerts admin_init @
       [''Unsupported file format. Please upload PDF, DOCX, or TXT files only.'']\<rparr>"
    using d2 p2
      upload_dotless_names [of "''TXT''" "''archive.tar''" 1
        "\<lparr>file_name = ''report'', file_size = 1\<rparr>" "[]"
        "Inr (Some ''task-1'')" admin_init]
    by blast
  show ?thesis using t d p s d2 p2 first second by blast
qed

section \<open>Demo ingestion\<close>

lemma trigger_all_keeps:
  "trigger_all backend fs st = (r, st') \<Longrightarrow>
   demoIngested st' = demoIngested st \<and> localStorage st' = localStorage st"
  by (induction backend fs st rule: trigger_all.induct)
     (auto simp: Let_def split: sum.splits)

lemma poll_all_keeps:
  "poll_all backend fs st = (r, st') \<Longrightarrow>
   demoIngested st' = demoIngested st \<and> localStorage st' = localStorage st"
proof (induction backend fs st rule: poll_all.induct)
  case (1 backend st)
  then show ?case by simp
next
  case (2 backend fname tid fs st)
  let ?st1 = "st\<lparr>network := network st @ [GetProcessingStatus tid]\<rparr>"
  show ?case
  proof (cases "backend tid")
    case (Inl e)
    then have "st' = ?st1" using "2.prems" by simp
    then show ?thesis by simp
  next
    case (Inr body)
    show ?thesis
    proof (cases body)
      case None
      then have "st' = ?st1" using "2.prems" Inr by simp
      then show ?thesis by simp
    next
      case (Some statusResp)
      show ?thesis
      proof (cases "resp_status statusResp = Some ''completed''")
        case True
        then have "poll_all backend fs ?st1 = (r, st')"
          using "2.prems" Inr Some by simp
        then have "demoIngested st' = demoIngested ?st1 \<and>
                   localStorage st' = localStorage ?st1"
          using "2.IH" [OF refl Inr Some] True by simp
        then show ?thesis by simp
      next
        case False
        then have "st' = ?st1" using "2.prems" Inr Some by simp
        then show ?thesis by simp
      qed
    qed
  qed
qed

lemma loadUploadedFiles_keeps:
  "demoIngested (loadUploadedFiles response st) = demoIngested st \<and>
   localStorage (loadUploadedFiles response st) = localStorage st"
  by (simp add: loadUploadedFiles_def Let_def split: sum.splits option.splits)

lemma pollStatuses_keeps:
  "demoIngested (pollStatuses backend list_answer st) = demoIngested st \<and>
   localStorage (pollStatuses backend list_answer st) = localStorage st"
proof (cases "poll_all backend DEMO_FILES st")
  case (Pair q st1)
  then have k: "demoIngested st1 = demoIngested st \<and> localStorage st1 = localStorage st"
    by (rule poll_all_keeps)
  show ?thesis
  proof (cases q)
    case (Threw e)
    then show ?thesis using Pair k by (simp add: pollStatuses_def)
  next
    case (AllDone allDone)
    then show ?thesis using Pair k by (simp add: pollStatuses_def loadUploadedFiles_keeps)
  qed
qed

text \<open>
  Whatever the backend answers, the demo ingestion neither sets the flag
  \<open>demoIngested\<close> nor writes to \<open>localStorage\<close>.
\<close>

lemma startDemoIngestion_persists_nothing:
  "demoIngested (startDemoIngestion trigger_backend poll_backend list_answer st) =
     demoIngested st \<and>
   localStorage (startDemoIngestion trigger_backend poll_backend list_answer st) =
     localStorage st"
proof -
  define st0 where "st0 = st\<lparr>demoIngestState :=
           \<lparr>demo_status = Some ''processing'',
            demo_messages =
              map (\<lambda>(fname, tid). ''Processing '' @ fname @ ''...'') DEMO_FILES\<rparr>\<rparr>"
  have s0: "demoIngested st0 = demoIngested st \<and> localStorage st0 = localStorage st"
    by (simp add: st0_def)
  obtain r st1 where t: "trigger_all trigger_backend DEMO_FILES st0 = (r, st1)"
    by (cases "trigger_all trigger_backend DEMO_FILES st0") auto
  have k1: "demoIngested st1 = demoIngested st \<and> localStorage st1 = localStorage st"
    using trigger_all_keeps [OF t] s0 by simp
  have u: "startDemoIngestion trigger_backend poll_backend list_answer st =
      (case r of
         Some e \<Rightarrow> st1\<lparr>demoIngestState :=
                 \<lparr>demo_status = Some ''error'',
                  demo_messages = [''Error processing demo files. Please try again.'']\<rparr>\<rparr>
       | None \<Rightarrow> pollStatuses poll_backend list_answer st1)"
    unfolding startDemoIngestion_def Let_def st0_def [symmetric] t by simp
  show ?thesis
  proof (cases r)
    case None
    then show ?thesis unfolding u using k1 by (simp add: pollStatuses_keeps)
  next
    case (Some e)
    then show ?thesis unfolding u using k1 by simp
  qed
qed

lemma demo_trigger_all_ok:
  "trigger_all demo_trigger_ok DEMO_FILES st =
     (None, st\<lparr>network := network st @
        [TriggerDemoFileIngest ''demo_graph'', TriggerDemoFileIngest ''demo_data'']\<rparr>)"
  by (simp add: DEMO_FILES_def demo_trigger_ok_def)

lemma demo_poll_all_completed:
  "poll_all demo_poll_completed DEMO_FILES st =
     (AllDone True, st\<lparr>network := network st @
        [GetProcessingStatus ''demo_graph'', GetProcessingStatus ''demo_data'']\<rparr>)"
  by (simp add: DEMO_FILES_def demo_poll_completed_def)

lemma refresh_empty_list:
  "loadUploadedFiles (Inr (Some [])) st =
     st\<lparr>network := network st @ [ListDocuments], uploadedFiles := []\<rparr>"
  by (simp add: loadUploadedFiles_def)

lemma demo_run:
  "startDemoIngestion demo_trigger_ok demo_poll_completed (Inr (Some [])) st =
     st\<lparr>demoIngestState :=
          \<lparr>demo_status = Some ''done'',
           demo_messages = ['' All demo documents processed successfully!'']\<rparr>,
        network := network st @
          [TriggerDemoFileIngest ''demo_graph'', TriggerDemoFileIngest ''demo_data'',
           GetProcessingStatus ''demo_graph'', GetProcessingStatus ''demo_data'',
           ListDocuments],
        uploadedFiles := []\<rparr>"
  by (simp add: startDemoIngestion_def pollStatuses_def demo_trigger_all_ok
      demo_poll_all_completed refresh_empty_list)

text \<open>
  C8 at a backend on which both demo documents report completed at the first poll, demo
  mode on and no ingestion done yet: the run ends with the state "done" and has
  refreshed the document list (the last request), but the flag \<open>demoIngested\<close> is still
  false and the key \<open>demoFilesIngested\<close> is not in \<open>localStorage\<close>. The next mount of the
  dashboard over that storage, in demo mode, is again the state this run started from,
  so the ingestion is triggered again.
\<close>

theorem demo_ingestion_done_not_persisted:
  "isDemoMode demo_mode_on \<and> \<not> demoIngested demo_mode_on \<and>
   demo_effect demo_trigger_ok demo_poll_completed (Inr (Some [])) demo_mode_on =
     demo_mode_on
       \<lparr>demoIngestState :=
          \<lparr>demo_status = Some ''done'',
           demo_messages = ['' All demo documents processed successfully!'']\<rparr>,
        network :=
          [TriggerDemoFileIngest ''demo_graph'', TriggerDemoFileIngest ''demo_data'',
           GetProcessingStatus ''demo_graph'', GetProcessingStatus ''demo_data'',
           ListDocuments]\<rparr> \<and>
   \<not> demoIngested
       (demo_effect demo_trigger_ok demo_poll_completed (Inr (Some [])) demo_mode_on) \<and>
   localStorage
       (demo_effect demo_trigger_ok demo_poll_completed (Inr (Some [])) demo_mode_on)
       ''demoFilesIngested'' = None \<and>
   load_demo_flag
     (admin_init\<lparr>isDemoMode := True,
        localStorage := localStorage
          (demo_effect demo_trigger_ok demo_poll_completed (Inr (Some [])) demo_mode_on)\<rparr>)
     = demo_mode_on"
proof -
  have m: "isDemoMode demo_mode_on" "\<not> demoIngested demo_mode_on"
    "network demo_mode_on = []" "uploadedFiles demo_mode_on = []"
    "localStorage demo_mode_on = Map.empty"
    by (simp_all add: demo_mode_on_def admin_init_def)
  have e: "demo_effect demo_trigger_ok demo_poll_completed (Inr (Some [])) demo_mode_on =
      startDemoIngestion demo_trigger_ok demo_poll_completed (Inr (Some [])) demo_mode_on"
    using m by (simp add: demo_effect_def)
  have r: "demo_effect demo_trigger_ok demo_poll_completed (Inr (Some [])) demo_mode_on =
     demo_mode_on
       \<lparr>demoIngestState :=
          \<lparr>demo_status = Some ''done'',
           demo_messages = ['' All demo documents processed successfully!'']\<rparr>,
        network :=
          [TriggerDemoFileIngest ''demo_graph'', TriggerDemoFileIngest ''demo_data'',
           GetProcessingStatus ''demo_graph'', GetProcessingStatus ''demo_data'',
           ListDocuments]\<rparr>"
    unfolding e demo_run using m by simp
  have l: "load_demo_flag (admin_init\<lparr>isDemoMode := True, localStorage := Map.empty\<rparr>)
      = demo_mode_on"
    by (simp add: load_demo_flag_def demo_mode_on_def admin_init_def)
  show ?thesis
    unfolding r using m l by simp
qed

end
